theory Spec2Isabelle
  imports Main "HOL-Library.Sublist" "HOL-Library.Multiset"
begin

section \<open>Data model\<close>

text \<open>
  The interfaces of \<^verbatim>\<open>src/pages/messagingInterface.tsx\<close> (lines 9-22). The field
  \<^verbatim>\<open>id\<close> of both interfaces is written \<open>session_id\<close> and \<open>message_id\<close>, since
  \<open>id\<close> is the identity function of HOL. JavaScript numbers that hold identifiers, page
  numbers and millisecond time values are integers here. A string is the list of its
  UTF-16 code units and a character is a code unit below 256 (Basic Latin and Latin-1);
  text with other code units is outside this development.
\<close>

datatype Action = USER | AI

record Message =
  message_id :: int
  content :: string
  action :: Action
  timestamp :: string

record ChatSession =
  session_id :: int
  name :: string
  messages :: "Message list"
  message_count :: int
  role :: "string option"

text \<open>
  The thirteen \<^verbatim>\<open>useState\<close> cells of \<^verbatim>\<open>MessagingInterface\<close> (lines 27-39). The cell
  \<^verbatim>\<open>messages\<close> is written \<open>currentMessages\<close> (the field \<open>messages\<close> belongs to
  \<open>ChatSession\<close>). \<^verbatim>\<open>null\<close> is \<open>None\<close>.
\<close>

record Dashboard =
  sessions :: "ChatSession list"
  selectedSession :: "int option"
  currentMessages :: "Message list"
  page :: int
  searchQuery :: string
  totalPages :: "int option"
  loading :: bool
  error :: "string option"
  isSnackbarVisible :: bool
  startDate :: string
  endDate :: string
  showSearch :: bool
  showDateRange :: bool

definition initial :: Dashboard where
  "initial = \<lparr>sessions = [], selectedSession = None, currentMessages = [], page = 1,
     searchQuery = [], totalPages = None, loading = False, error = None,
     isSnackbarVisible = False, startDate = [], endDate = [], showSearch = False,
     showDateRange = False\<rparr>"

section \<open>The pieces of the JavaScript runtime that the code calls\<close>

text \<open>
  A \<^verbatim>\<open>Date\<close> is its time value: \<open>Some t\<close> for \<open>t\<close> milliseconds since the epoch,
  \<open>None\<close> for an invalid date, whose \<^verbatim>\<open>getTime()\<close> is \<^verbatim>\<open>NaN\<close>. The parser of date
  strings belongs to the runtime; every function that builds a \<^verbatim>\<open>Date\<close> from a string
  takes it as the parameter \<open>P\<close>.
\<close>

type_synonym date = "int option"
type_synonym date_parser = "string \<Rightarrow> date"

text \<open>\<^verbatim>\<open>a >= b\<close> and \<^verbatim>\<open>a <= b\<close> on dates compare the time values; with \<^verbatim>\<open>NaN\<close> on
  either side both are false.\<close>

definition date_ge :: "date \<Rightarrow> date \<Rightarrow> bool" where
  "date_ge a b = (case (a, b) of (Some x, Some y) \<Rightarrow> y \<le> x | _ \<Rightarrow> False)"

definition date_le :: "date \<Rightarrow> date \<Rightarrow> bool" where
  "date_le a b = (case (a, b) of (Some x, Some y) \<Rightarrow> x \<le> y | _ \<Rightarrow> False)"

text \<open>
  \<^verbatim>\<open>String.prototype.toLowerCase\<close> and \<^verbatim>\<open>String.prototype.includes\<close>. Below 256 the
  code units with a lower-case form are A to Z (65-90) and the capital letters of Latin-1
  (192-222 without the multiplication sign 215); the lower-case form is 32 further; no
  conversion in this range changes the length of the string.
\<close>

definition toLowerCase_char :: "char \<Rightarrow> char" where
  "toLowerCase_char c =
     (let n = (of_char c :: nat) in
      if (65 \<le> n \<and> n \<le> 90) \<or> (192 \<le> n \<and> n \<le> 214) \<or> (216 \<le> n \<and> n \<le> 222)
      then char_of (n + 32) else c)"

definition toLowerCase :: "string \<Rightarrow> string" where
  "toLowerCase s = map toLowerCase_char s"

definition String_includes :: "string \<Rightarrow> string \<Rightarrow> bool" where
  "String_includes s searchString = sublist searchString s"

text \<open>
  \<^verbatim>\<open>Array.prototype.sort(comparefn)\<close>. The comparator returns a number, \<open>None\<close> standing
  for \<^verbatim>\<open>NaN\<close>, which the language's \<^verbatim>\<open>SortCompare\<close> reads as \<open>0\<close>. The language asks
  for a stable sort when the comparator is consistent and leaves the order to the engine
  otherwise; the model is the stable insertion sort.
\<close>

definition SortCompare :: "('a \<Rightarrow> 'a \<Rightarrow> int option) \<Rightarrow> 'a \<Rightarrow> 'a \<Rightarrow> int" where
  "SortCompare comparefn x y = (case comparefn x y of None \<Rightarrow> 0 | Some v \<Rightarrow> v)"

fun sort_insert :: "('a \<Rightarrow> 'a \<Rightarrow> int option) \<Rightarrow> 'a \<Rightarrow> 'a list \<Rightarrow> 'a list" where
  "sort_insert comparefn x [] = [x]"
| "sort_insert comparefn x (y # ys) =
     (if SortCompare comparefn x y \<le> 0 then x # y # ys
      else y # sort_insert comparefn x ys)"

definition Array_sort :: "('a \<Rightarrow> 'a \<Rightarrow> int option) \<Rightarrow> 'a list \<Rightarrow> 'a list" where
  "Array_sort comparefn xs = foldr (sort_insert comparefn) xs []"

text \<open>
  A promise that has settled: fulfilled with a value, or rejected with an \<^verbatim>\<open>Error\<close>
  whose \<^verbatim>\<open>message\<close> is the string. \<^verbatim>\<open>fetch\<close> gives a promise of a response, the
  response has the flag \<^verbatim>\<open>ok\<close> and the method \<^verbatim>\<open>json()\<close>, a promise of the parsed body.
  Of the body the code reads \<^verbatim>\<open>chat_sessions\<close> and \<^verbatim>\<open>total_pages\<close>; \<open>None\<close> is an
  absent field. A body that is \<^verbatim>\<open>null\<close> makes line 53 throw before any setter has run,
  which leaves the store as a rejected \<^verbatim>\<open>json()\<close> does, with the message of that error.
\<close>

datatype 'a promise = Fulfilled 'a | Rejected string

record ResponseData =
  chat_sessions :: "ChatSession list option"
  total_pages :: "int option"

record Response =
  ok :: bool
  json :: "ResponseData promise"

record Request =
  page_param :: int
  per_page :: int

text \<open>The message of the \<^verbatim>\<open>TypeError\<close> that calling \<^verbatim>\<open>.sort\<close> on \<^verbatim>\<open>undefined\<close> throws
  (the wording is the engine's).\<close>

definition sort_of_undefined_message :: string where
  "sort_of_undefined_message = ''Cannot read properties of undefined (reading 'sort')''"

section \<open>The pagination engine: fetchSessions (lines 42-77)\<close>

text \<open>
  The comparator of lines 55-59 and 63-67:
  \<^verbatim>\<open>a.messages[0]?.timestamp || new Date(0)\<close> is the timestamp of the first message, or
  the epoch when there is no message or the timestamp is the empty string;
  \<^verbatim>\<open>new Date(...).getTime()\<close> is its time value.
\<close>

definition latestMessageTime :: "date_parser \<Rightarrow> ChatSession \<Rightarrow> date" where
  "latestMessageTime P a =
     (case messages a of
        [] \<Rightarrow> Some 0
      | m # _ \<Rightarrow> if timestamp m = [] then Some 0 else P (timestamp m))"

definition compareSessions :: "date_parser \<Rightarrow> ChatSession \<Rightarrow> ChatSession \<Rightarrow> int option" where
  "compareSessions P a b =
     (case (latestMessageTime P b, latestMessageTime P a) of
        (Some tb, Some ta) \<Rightarrow> Some (tb - ta)
      | _ \<Rightarrow> None)"

text \<open>
  \<^verbatim>\<open>fetchSessions\<close> is a closure of one render: its \<^verbatim>\<open>page\<close>, \<^verbatim>\<open>loading\<close> and
  \<^verbatim>\<open>totalPages\<close> are the values of that render, \<open>r\<close> below, while the setters write to
  the store \<open>s\<close>. The function runs in two parts around its \<^verbatim>\<open>await\<close>s.

  The first part is the guard of line 43, \<^verbatim>\<open>setLoading(true)\<close> and the request of
  line 47.
\<close>

definition fetchSessions_guard :: "Dashboard \<Rightarrow> bool" where
  "fetchSessions_guard r =
     (loading r \<or> (case totalPages r of None \<Rightarrow> False | Some t \<Rightarrow> page r > t))"

definition fetchSessions_start :: "Dashboard \<Rightarrow> Dashboard \<Rightarrow> Dashboard \<times> Request option" where
  "fetchSessions_start r s =
     (if fetchSessions_guard r then (s, None)
      else (s\<lparr>loading := True\<rparr>, Some \<lparr>page_param = page r, per_page = 20\<rparr>))"

text \<open>
  The \<^verbatim>\<open>try\<close> block (lines 47-70) once the request has settled: the store after the
  block, and the message of the error it threw, if any. \<^verbatim>\<open>data.total_pages || null\<close>
  is \<^verbatim>\<open>null\<close> for an absent field and for \<open>0\<close>. \<^verbatim>\<open>setSessions\<close> and \<^verbatim>\<open>setPage\<close> take
  updater functions, which read the store.
\<close>

definition total_pages_or_null :: "ResponseData \<Rightarrow> int option" where
  "total_pages_or_null data =
     (case total_pages data of None \<Rightarrow> None | Some t \<Rightarrow> if t = 0 then None else Some t)"

definition try_block :: "date_parser \<Rightarrow> Response promise \<Rightarrow> Dashboard \<Rightarrow> Dashboard \<times> string option" where
  "try_block P fetched s =
     (case fetched of
        Rejected m \<Rightarrow> (s, Some m)
      | Fulfilled response \<Rightarrow>
          if \<not> ok response then (s, Some ''Failed to fetch sessions. Please try again.'')
          else (case json response of
              Rejected m \<Rightarrow> (s, Some m)
            | Fulfilled data \<Rightarrow>
                (let s1 = s\<lparr>totalPages := total_pages_or_null data\<rparr> in
                 case chat_sessions data of
                   None \<Rightarrow> (s1, Some sort_of_undefined_message)
                 | Some fetchedSessions \<Rightarrow>
                     (let sortedSessions = Array_sort (compareSessions P) fetchedSessions in
                      (s1\<lparr>sessions := Array_sort (compareSessions P) (sessions s1 @ sortedSessions),
                          page := page s1 + 1\<rparr>, None)))))"

text \<open>
  The second part: the \<^verbatim>\<open>try\<close> block, the \<^verbatim>\<open>catch\<close> clause (lines 71-73), which
  takes every error, and the \<^verbatim>\<open>finally\<close> clause (line 75). The result is the store and
  the promise that the \<^verbatim>\<open>async\<close> function returns.
\<close>

definition fetchSessions_settle :: "date_parser \<Rightarrow> Response promise \<Rightarrow> Dashboard \<Rightarrow> Dashboard \<times> unit promise" where
  "fetchSessions_settle P fetched s =
     (let (s1, thrown) = try_block P fetched s;
          s2 = (case thrown of
                  None \<Rightarrow> s1
                | Some m \<Rightarrow> s1\<lparr>error := Some m, isSnackbarVisible := True\<rparr>)
      in (s2\<lparr>loading := False\<rparr>, Fulfilled ()))"

text \<open>One whole call with nothing in between: the requests it sent, the store, and the
  promise it returns. \<open>backend\<close> answers a request.\<close>

definition fetchSessions ::
  "date_parser \<Rightarrow> (Request \<Rightarrow> Response promise) \<Rightarrow> Dashboard \<Rightarrow> Dashboard \<Rightarrow>
     Dashboard \<times> Request list \<times> unit promise" where
  "fetchSessions P backend r s =
     (case fetchSessions_start r s of
        (s1, None) \<Rightarrow> (s1, [], Fulfilled ())
      | (s1, Some q) \<Rightarrow>
          (let (s2, result) = fetchSessions_settle P (backend q) s1 in (s2, [q], result)))"

text \<open>
  The engine over time. A configuration is the latest committed render, the store and the
  requests in flight. A call is of the \<^verbatim>\<open>fetchSessions\<close> of the latest committed render,
  whose setters write to the store; a commit renders the store, so that the next call reads
  its values; a fetch in flight settles on the store.
\<close>

datatype event = Invoke | Commit | Settle "Response promise"

fun step ::
  "date_parser \<Rightarrow> event \<Rightarrow> Dashboard \<times> Dashboard \<times> Request list \<Rightarrow>
     Dashboard \<times> Dashboard \<times> Request list" where
  "step P Invoke (r, s, inflight) =
     (case fetchSessions_start r s of
        (s1, None) \<Rightarrow> (r, s1, inflight)
      | (s1, Some q) \<Rightarrow> (r, s1, inflight @ [q]))"
| "step P Commit (r, s, inflight) = (s, s, inflight)"
| "step P (Settle fetched) (r, s, inflight) =
     (case inflight of
        [] \<Rightarrow> (r, s, [])
      | q # rest \<Rightarrow> (r, fst (fetchSessions_settle P fetched s), rest))"

fun run ::
  "date_parser \<Rightarrow> event list \<Rightarrow> Dashboard \<times> Dashboard \<times> Request list \<Rightarrow>
     Dashboard \<times> Dashboard \<times> Request list" where
  "run P [] c = c"
| "run P (e # es) c = run P es (step P e c)"

section \<open>Selecting a session: handleSessionClick (lines 97-106)\<close>

text \<open>\<^verbatim>\<open>sessions\<close> is the list of the render \<open>r\<close>; the setters write to the store \<open>s\<close>.
  The second component is the list of network requests the handler sends.\<close>

definition handleSessionClick :: "Dashboard \<Rightarrow> int \<Rightarrow> Dashboard \<Rightarrow> Dashboard \<times> Request list" where
  "handleSessionClick r sessionId s =
     (case find (\<lambda>session. session_id session = sessionId) (sessions r) of
        None \<Rightarrow> (s, [])
      | Some selected \<Rightarrow>
          (s\<lparr>selectedSession := Some sessionId, currentMessages := messages selected\<rparr>, []))"

section \<open>The filter: filteredSessions (lines 118-128)\<close>

definition sessionDate :: "date_parser \<Rightarrow> ChatSession \<Rightarrow> date" where
  "sessionDate P session =
     (case messages session of
        [] \<Rightarrow> Some 0
      | m # _ \<Rightarrow> if timestamp m = [] then Some 0 else P (timestamp m))"

definition isWithinDateRange :: "date_parser \<Rightarrow> Dashboard \<Rightarrow> ChatSession \<Rightarrow> bool" where
  "isWithinDateRange P r session =
     ((startDate r = [] \<or> date_ge (sessionDate P session) (P (startDate r))) \<and>
      (endDate r = [] \<or> date_le (sessionDate P session) (P (endDate r))))"

definition filteredSessions :: "date_parser \<Rightarrow> Dashboard \<Rightarrow> ChatSession list" where
  "filteredSessions P r =
     filter (\<lambda>session.
        String_includes (toLowerCase (name session)) (toLowerCase (searchQuery r)) \<and>
        isWithinDateRange P r session) (sessions r)"

section \<open>The notification: Snackbar (src/components/snackbar.tsx)\<close>

text \<open>
  The props of lines 6-11. A callback is known by its identity, a number: the dependency
  list of an effect compares function values by identity.
\<close>

datatype SnackbarType = Warning | Info

record SnackbarProps =
  message :: string
  isVisible :: bool
  onClose :: nat
  snackbar_type :: SnackbarType

text \<open>
  The timers of the browser: the clock in milliseconds, the pending timeouts and the next
  identifier. \<^verbatim>\<open>setTimeout\<close> adds a timeout and returns its identifier, \<^verbatim>\<open>clearTimeout\<close>
  removes the timeout with the given identifier, and when time passes every timeout that
  is due is removed and its callback runs: a timeout fires once.
\<close>

record Timer =
  timer_id :: nat
  due :: nat
  callback :: nat

record Browser =
  clock :: nat
  timers :: "Timer list"
  next_timer_id :: nat

definition setTimeout :: "nat \<Rightarrow> nat \<Rightarrow> Browser \<Rightarrow> Browser \<times> nat" where
  "setTimeout handler delay b =
     (b\<lparr>timers := timers b @ [\<lparr>timer_id = next_timer_id b, due = clock b + delay, callback = handler\<rparr>],
        next_timer_id := next_timer_id b + 1\<rparr>, next_timer_id b)"

definition clearTimeout :: "nat \<Rightarrow> Browser \<Rightarrow> Browser" where
  "clearTimeout timer b = b\<lparr>timers := filter (\<lambda>t. timer_id t \<noteq> timer) (timers b)\<rparr>"

definition elapse :: "nat \<Rightarrow> Browser \<Rightarrow> Browser \<times> nat list" where
  "elapse d b =
     (b\<lparr>clock := clock b + d, timers := filter (\<lambda>t. clock b + d < due t) (timers b)\<rparr>,
      map callback (filter (\<lambda>t. due t \<le> clock b + d) (timers b)))"

text \<open>
  What the framework keeps for the \<^verbatim>\<open>useEffect\<close> of a mounted component: the values the
  dependencies \<^verbatim>\<open>[isVisible, onClose]\<close> had when the effect last ran, and the cleanup that
  this run returned, here the identifier that the cleanup gives to \<^verbatim>\<open>clearTimeout\<close>.
\<close>

record Instance =
  deps :: "(bool \<times> nat) option"
  cleanup :: "nat option"

text \<open>The effect of lines 19-24: the browser after it, and the cleanup it returns.\<close>

definition Snackbar_effect :: "SnackbarProps \<Rightarrow> Browser \<Rightarrow> Browser \<times> nat option" where
  "Snackbar_effect props b =
     (if isVisible props
      then (let (b1, timer) = setTimeout (onClose props) 3000 b in (b1, Some timer))
      else (b, None))"

text \<open>
  A render runs the effect when the component is new or a dependency differs from the
  previous render, after the cleanup of the previous run; removing the component runs the
  cleanup.
\<close>

definition run_cleanup :: "nat option \<Rightarrow> Browser \<Rightarrow> Browser" where
  "run_cleanup c b = (case c of None \<Rightarrow> b | Some timer \<Rightarrow> clearTimeout timer b)"

definition Snackbar_render :: "SnackbarProps \<Rightarrow> Instance \<times> Browser \<Rightarrow> Instance \<times> Browser" where
  "Snackbar_render props c =
     (case c of (inst, b) \<Rightarrow>
        if deps inst = Some (isVisible props, onClose props) then (inst, b)
        else (let (b1, c1) = Snackbar_effect props (run_cleanup (cleanup inst) b)
              in (\<lparr>deps = Some (isVisible props, onClose props), cleanup = c1\<rparr>, b1)))"

definition Snackbar_unmount :: "Instance \<times> Browser \<Rightarrow> Instance \<times> Browser" where
  "Snackbar_unmount c =
     (case c of (inst, b) \<Rightarrow> (\<lparr>deps = None, cleanup = None\<rparr>, run_cleanup (cleanup inst) b))"

definition before_mount :: "Instance \<times> Browser" where
  "before_mount = (\<lparr>deps = None, cleanup = None\<rparr>, \<lparr>clock = 0, timers = [], next_timer_id = 1\<rparr>)"

datatype snackbar_event = Render SnackbarProps | Elapse nat | Unmount

fun snackbar_step :: "snackbar_event \<Rightarrow> Instance \<times> Browser \<Rightarrow> (Instance \<times> Browser) \<times> nat list" where
  "snackbar_step (Render props) c = (Snackbar_render props c, [])"
| "snackbar_step (Elapse d) (inst, b) = (let (b1, fired) = elapse d b in ((inst, b1), fired))"
| "snackbar_step Unmount c = (Snackbar_unmount c, [])"

fun snackbar_run :: "snackbar_event list \<Rightarrow> Instance \<times> Browser \<Rightarrow> (Instance \<times> Browser) \<times> nat list" where
  "snackbar_run [] c = (c, [])"
| "snackbar_run (e # es) c =
     (let (c1, fired1) = snackbar_step e c; (c2, fired2) = snackbar_run es c1
      in (c2, fired1 @ fired2))"

section \<open>Terms in which the properties are stated\<close>

text \<open>A list of sessions is in descending order of recency when every session's time
  value is at least that of every later session.\<close>

definition descending :: "date_parser \<Rightarrow> ChatSession list \<Rightarrow> bool" where
  "descending P xs =
     sorted_wrt (\<lambda>a b. date_ge (latestMessageTime P a) (latestMessageTime P b)) xs"

text \<open>Example data: a parser that knows a few calendar dates (midnight UTC, in
  milliseconds), a session with the given message timestamps, and a page of the backend.\<close>

definition example_parser :: date_parser where
  "example_parser = map_of
     [(''2023-01-01'', 1672531200000), (''2024-01-05'', 1704412800000),
      (''2024-02-01'', 1706745600000), (''2024-03-10'', 1710028800000),
      (''2024-12-31'', 1735603200000), (''2024-12-31T10:00:00Z'', 1735639200000)]"

definition example_session :: "int \<Rightarrow> string \<Rightarrow> string list \<Rightarrow> ChatSession" where
  "example_session i n ts =
     \<lparr>session_id = i, name = n,
      messages = map (\<lambda>t. \<lparr>message_id = 1, content = ''hello'', action = USER, timestamp = t\<rparr>) ts,
      message_count = int (length ts), role = None\<rparr>"

definition example_page :: "ChatSession list \<Rightarrow> int \<Rightarrow> Response promise" where
  "example_page cs t =
     Fulfilled \<lparr>ok = True, json = Fulfilled \<lparr>chat_sessions = Some cs, total_pages = Some t\<rparr>\<rparr>"

definition example_sessions :: "ChatSession list" where
  "example_sessions =
     [example_session 2 ''Bob'' [], example_session 3 ''Carol'' [''2024-03-10'']]"

definition example_data :: ResponseData where
  "example_data = \<lparr>chat_sessions = Some example_sessions, total_pages = Some 3\<rparr>"

definition example_response :: Response where
  "example_response = \<lparr>ok = True, json = Fulfilled example_data\<rparr>"

text \<open>Stores: page 1 is loading and one session is there already; the cursor is past the
  last page; a session with three messages can be selected.\<close>

definition example_store :: Dashboard where
  "example_store =
     initial\<lparr>sessions := [example_session 1 ''Alice'' [''2024-01-05'']], loading := True\<rparr>"

definition last_page_store :: Dashboard where
  "last_page_store = initial\<lparr>page := 4, totalPages := Some 3\<rparr>"

definition selectable_store :: Dashboard where
  "selectable_store = initial\<lparr>sessions :=
     [example_session 3 ''Carol'' [''2024-03-10''],
      example_session 7 ''Dana'' [''2024-03-10'', ''2024-02-01'', ''2024-01-05'']]\<rparr>"









text \<open>For the notification: at most one timeout is pending and it is the one that the
  cleanup will clear; and example props.\<close>

definition one_timer :: "Instance \<times> Browser \<Rightarrow> bool" where
  "one_timer c = (case c of (inst, b) \<Rightarrow>
     length (timers b) \<le> 1 \<and> (\<forall>t\<in>set (timers b). cleanup inst = Some (timer_id t)))"

definition example_props :: "string \<Rightarrow> bool \<Rightarrow> nat \<Rightarrow> SnackbarProps" where
  "example_props m v k = \<lparr>message = m, isVisible = v, onClose = k, snackbar_type = Info\<rparr>"

section \<open>Lemmas on the sort and on the two parts of fetchSessions\<close>

lemma mset_sort_insert: "mset (sort_insert c x ys) = add_mset x (mset ys)"
  by (induction ys) auto

lemma mset_Array_sort: "mset (Array_sort c xs) = mset xs"
  by (induction xs) (auto simp: Array_sort_def mset_sort_insert)

lemma set_Array_sort: "set (Array_sort c xs) = set xs"
  by (metis mset_Array_sort set_mset_mset)

lemma SortCompare_sessions:
  "latestMessageTime P x = Some tx \<Longrightarrow> latestMessageTime P y = Some ty \<Longrightarrow>
     SortCompare (compareSessions P) x y = ty - tx"
  by (simp add: SortCompare_def compareSessions_def)

lemma descending_sort_insert:
  assumes "descending P ys" "latestMessageTime P x \<noteq> None"
    "\<forall>y\<in>set ys. latestMessageTime P y \<noteq> None"
  shows "descending P (sort_insert (compareSessions P) x ys)"
  using assms
proof (induction ys)
  case Nil
  then show ?case by (simp add: descending_def)
next
  case (Cons y ys)
  from Cons.prems obtain tx ty where
    t: "latestMessageTime P x = Some tx" "latestMessageTime P y = Some ty"
    by auto
  show ?case
  proof (cases "SortCompare (compareSessions P) x y \<le> 0")
    case True
    with t have le: "ty \<le> tx" by (simp add: SortCompare_sessions)
    have "\<forall>z\<in>set ys. date_ge (Some tx) (latestMessageTime P z)"
    proof
      fix z assume z: "z \<in> set ys"
      with Cons.prems(1) t have "date_ge (Some ty) (latestMessageTime P z)"
        by (simp add: descending_def)
      with le show "date_ge (Some tx) (latestMessageTime P z)"
        by (auto simp: date_ge_def split: option.splits)
    qed
    with True t le Cons.prems(1) show ?thesis
      by (simp add: descending_def date_ge_def)
  next
    case False
    with t have lt: "tx < ty" by (simp add: SortCompare_sessions)
    from Cons.prems have IH: "descending P (sort_insert (compareSessions P) x ys)"
      by (intro Cons.IH) (simp_all add: descending_def)
    have "\<forall>z\<in>set (sort_insert (compareSessions P) x ys).
            date_ge (Some ty) (latestMessageTime P z)"
    proof
      fix z assume "z \<in> set (sort_insert (compareSessions P) x ys)"
      then have "z \<in># mset (sort_insert (compareSessions P) x ys)" by simp
      then have "z = x \<or> z \<in> set ys" by (simp add: mset_sort_insert)
      with Cons.prems(1) t lt show "date_ge (Some ty) (latestMessageTime P z)"
        by (auto simp: descending_def date_ge_def)
    qed
    with False t IH show ?thesis
      by (simp add: descending_def)
  qed
qed

lemma descending_Array_sort:
  "\<forall>x\<in>set xs. latestMessageTime P x \<noteq> None \<Longrightarrow>
     descending P (Array_sort (compareSessions P) xs)"
proof (induction xs)
  case Nil
  then show ?case by (simp add: Array_sort_def descending_def)
next
  case (Cons x xs)
  then have "descending P (sort_insert (compareSessions P) x (Array_sort (compareSessions P) xs))"
    by (intro descending_sort_insert) (simp_all add: set_Array_sort)
  then show ?case by (simp add: Array_sort_def)
qed

lemma start_guarded: "fetchSessions_guard r \<Longrightarrow> fetchSessions_start r s = (s, None)"
  by (simp add: fetchSessions_start_def)

lemma settle_not_loading: "\<not> loading (fst (fetchSessions_settle P fetched s))"
  by (simp add: fetchSessions_settle_def split: prod.splits)

lemma settle_success:
  assumes "fetched = Fulfilled response" "ok response" "json response = Fulfilled data"
    "chat_sessions data = Some cs"
  shows "fetchSessions_settle P fetched s =
     (s\<lparr>totalPages := total_pages_or_null data,
        sessions := Array_sort (compareSessions P) (sessions s @ Array_sort (compareSessions P) cs),
        page := page s + 1, loading := False\<rparr>, Fulfilled ())"
  using assms by (simp add: fetchSessions_settle_def try_block_def)

lemma totalPages_settle_body:
  assumes "fetched = Fulfilled response" "ok response" "json response = Fulfilled data"
  shows "totalPages (fst (fetchSessions_settle P fetched s)) = total_pages_or_null data"
  using assms
  by (cases "chat_sessions data") (simp_all add: fetchSessions_settle_def try_block_def Let_def)

lemma totalPages_settle_no_body:
  assumes "fetched = Rejected m \<or> (fetched = Fulfilled response \<and>
          (\<not> ok response \<or> json response = Rejected m))"
  shows "totalPages (fst (fetchSessions_settle P fetched s)) = totalPages s"
  using assms by (auto simp: fetchSessions_settle_def try_block_def)

lemma run_Invoke_guarded:
  "fetchSessions_guard r \<Longrightarrow> run P (replicate n Invoke) (r, s, inflight) = (r, s, inflight)"
  by (induction n) (simp_all add: start_guarded)

lemma Invoke_after_Commit_while_loading:
  "loading s \<Longrightarrow> run P [Commit, Invoke] (r, s, inflight) = (s, s, inflight)"
  by (simp add: start_guarded fetchSessions_guard_def)

lemma find_no_session:
  "(\<forall>x\<in>set xs. session_id x \<noteq> i) \<Longrightarrow> find (\<lambda>session. session_id session = i) xs = None"
  by (simp add: find_None_iff)

lemma find_first_session:
  "i \<in> session_id ` set xs \<Longrightarrow>
     \<exists>sel. find (\<lambda>session. session_id session = i) xs = Some sel \<and> sel \<in> set xs \<and>
       session_id sel = i"
  by (induction xs) auto

lemma find_only_session:
  "x \<in> set xs \<Longrightarrow> \<forall>y\<in>set xs. session_id y = session_id x \<longrightarrow> y = x \<Longrightarrow>
     find (\<lambda>session. session_id session = session_id x) xs = Some x"
proof (induction xs)
  case Nil
  then show ?case by simp
next
  case (Cons a xs)
  show ?case
  proof (cases "session_id a = session_id x")
    case True
    from Cons.prems(2) have "session_id a = session_id x \<longrightarrow> a = x"
      by (rule ballE [where x = a]) simp_all
    with True have "a = x" by blast
    then show ?thesis by simp
  next
    case False
    then have "a \<noteq> x" by blast
    with Cons.prems(1) have x: "x \<in> set xs" by simp
    from Cons.prems(2) have "\<forall>y\<in>set xs. session_id y = session_id x \<longrightarrow> y = x"
      by simp
    with x have "find (\<lambda>session. session_id session = session_id x) xs = Some x"
      by (rule Cons.IH)
    with False show ?thesis by simp
  qed
qed

section \<open>Failed fetches\<close>

text \<open>
  Claim C1. A fetch fails when \<^verbatim>\<open>fetch\<close> rejects (a transport error), when the response
  is not \<^verbatim>\<open>ok\<close> (a status outside 200-299), when \<^verbatim>\<open>response.json()\<close> rejects (the body
  does not parse), or when the parsed body has no \<^verbatim>\<open>chat_sessions\<close>. After every such
  fetch the loaded sessions and the page cursor are what they were, the error's message is
  recorded, the notification is visible, the loading flag is cleared, and the promise of
  \<^verbatim>\<open>fetchSessions\<close> is fulfilled: the error goes no further.
\<close>

theorem fetchSessions_failure_keeps_page:
  assumes "fetched = Rejected m
     \<or> (\<exists>response. fetched = Fulfilled response \<and> \<not> ok response \<and>
           m = ''Failed to fetch sessions. Please try again.'')
     \<or> (\<exists>response. fetched = Fulfilled response \<and> ok response \<and> json response = Rejected m)
     \<or> (\<exists>response data. fetched = Fulfilled response \<and> ok response \<and>
           json response = Fulfilled data \<and> chat_sessions data = None \<and>
           m = sort_of_undefined_message)"
  shows "sessions (fst (fetchSessions_settle P fetched s)) = sessions s
     \<and> page (fst (fetchSessions_settle P fetched s)) = page s
     \<and> error (fst (fetchSessions_settle P fetched s)) = Some m
     \<and> isSnackbarVisible (fst (fetchSessions_settle P fetched s))
     \<and> \<not> loading (fst (fetchSessions_settle P fetched s))
     \<and> snd (fetchSessions_settle P fetched s) = Fulfilled ()"
  using assms by (auto simp: fetchSessions_settle_def try_block_def)

text \<open>A response with status 500, arriving while page 1 is loading.\<close>

theorem fetchSessions_failure_keeps_page_witness:
  "sessions (fst (fetchSessions_settle example_parser
       (Fulfilled \<lparr>ok = False, json = Rejected []\<rparr>) (initial\<lparr>loading := True\<rparr>))) = []
   \<and> page (fst (fetchSessions_settle example_parser
       (Fulfilled \<lparr>ok = False, json = Rejected []\<rparr>) (initial\<lparr>loading := True\<rparr>))) = 1
   \<and> error (fst (fetchSessions_settle example_parser
       (Fulfilled \<lparr>ok = False, json = Rejected []\<rparr>) (initial\<lparr>loading := True\<rparr>)))
       = Some ''Failed to fetch sessions. Please try again.''
   \<and> isSnackbarVisible (fst (fetchSessions_settle example_parser
       (Fulfilled \<lparr>ok = False, json = Rejected []\<rparr>) (initial\<lparr>loading := True\<rparr>)))"
  using fetchSessions_failure_keeps_page
    [of "Fulfilled \<lparr>ok = False, json = Rejected []\<rparr>"
        "''Failed to fetch sessions. Please try again.''" example_parser
        "initial\<lparr>loading := True\<rparr>"]
  by (simp add: initial_def)

section \<open>Successful fetches\<close>

lemma example_times:
  "latestMessageTime example_parser (example_session i n []) = Some 0"
  "latestMessageTime example_parser (example_session i n [''2024-01-05'']) = Some 1704412800000"
  "latestMessageTime example_parser (example_session i n [''2024-02-01'']) = Some 1706745600000"
  "latestMessageTime example_parser (example_session i n [''2024-03-10'']) = Some 1710028800000"
  by (simp_all add: latestMessageTime_def example_session_def example_parser_def)

text \<open>
  Claim C4. A fetch succeeds when the response is \<^verbatim>\<open>ok\<close> and its body parses and has
  \<^verbatim>\<open>chat_sessions\<close>. When the timestamp that heads every loaded and every fetched session
  is a valid date (the epoch standing in for a session without messages), the list after the
  merge is in descending order of these time values, whatever the order of the list before
  and of the page, and the page cursor is one more than it was. The most recent message of
  a session is the first entry of \<^verbatim>\<open>messages\<close>, as the backend lists them.
\<close>

theorem fetchSessions_success_sorted:
  assumes "fetched = Fulfilled response" "ok response" "json response = Fulfilled data"
    "chat_sessions data = Some fetchedSessions"
    "\<forall>x\<in>set (sessions s). latestMessageTime P x \<noteq> None"
    "\<forall>x\<in>set fetchedSessions. latestMessageTime P x \<noteq> None"
  shows "descending P (sessions (fst (fetchSessions_settle P fetched s)))
     \<and> page (fst (fetchSessions_settle P fetched s)) = page s + 1"
proof -
  have "\<forall>x\<in>set (sessions s @ Array_sort (compareSessions P) fetchedSessions).
          latestMessageTime P x \<noteq> None"
    using assms(5,6) by (auto simp: set_Array_sort)
  then have "descending P (Array_sort (compareSessions P)
       (sessions s @ Array_sort (compareSessions P) fetchedSessions))"
    by (rule descending_Array_sort)
  then show ?thesis
    by (simp add: settle_success [OF assms(1-4)])
qed

text \<open>Alice (5 January 2024) is loaded; the page brings Bob, who has no messages, and Carol
  (10 March 2024). The merged list is Carol, Alice, Bob.\<close>

theorem fetchSessions_success_sorted_witness:
  "descending example_parser
     (sessions (fst (fetchSessions_settle example_parser (Fulfilled example_response) example_store)))
   \<and> page (fst (fetchSessions_settle example_parser (Fulfilled example_response) example_store)) = 2
   \<and> map session_id
       (sessions (fst (fetchSessions_settle example_parser (Fulfilled example_response) example_store)))
     = [3, 1, 2]"
proof -
  have ids: "map session_id
       (sessions (fst (fetchSessions_settle example_parser (Fulfilled example_response) example_store)))
     = [3, 1, 2]"
    by (simp add: fetchSessions_settle_def try_block_def example_response_def example_data_def
        example_sessions_def example_store_def Array_sort_def SortCompare_def
        compareSessions_def example_times)
       (simp add: example_session_def)
  have valid: "\<forall>x\<in>set (sessions example_store). latestMessageTime example_parser x \<noteq> None"
    "\<forall>x\<in>set example_sessions. latestMessageTime example_parser x \<noteq> None"
    by (simp_all add: example_store_def example_sessions_def example_times)
  have "page example_store = 1" by (simp add: example_store_def initial_def)
  with ids valid show ?thesis
    using fetchSessions_success_sorted
      [of "Fulfilled example_response" example_response example_data example_sessions
          example_store example_parser]
    by (simp add: example_response_def example_data_def)
qed

text \<open>
  Claim C9. The merge removes no duplicate: after a successful fetch of \<open>k\<close> sessions the
  list is \<open>k\<close> entries longer and holds exactly the old and the fetched entries, so an
  identifier that was loaded and is fetched again occurs at least twice.
\<close>

theorem fetchSessions_merge_keeps_duplicates:
  assumes "fetched = Fulfilled response" "ok response" "json response = Fulfilled data"
    "chat_sessions data = Some fetchedSessions"
  shows "length (sessions (fst (fetchSessions_settle P fetched s)))
       = length (sessions s) + length fetchedSessions
     \<and> mset (sessions (fst (fetchSessions_settle P fetched s)))
       = mset (sessions s) + mset fetchedSessions
     \<and> (\<forall>x\<in>set fetchedSessions. \<forall>y\<in>set (sessions s). session_id y = session_id x \<longrightarrow>
          2 \<le> length (filter (\<lambda>z. session_id z = session_id x)
                 (sessions (fst (fetchSessions_settle P fetched s)))))"
proof -
  let ?new = "sessions (fst (fetchSessions_settle P fetched s))"
  have new: "?new = Array_sort (compareSessions P)
       (sessions s @ Array_sort (compareSessions P) fetchedSessions)"
    by (simp add: settle_success [OF assms])
  have m: "mset ?new = mset (sessions s) + mset fetchedSessions"
    by (simp add: new mset_Array_sort)
  have l: "length ?new = length (sessions s) + length fetchedSessions"
    using arg_cong [OF m, of size] by simp
  have "2 \<le> length (filter (\<lambda>z. session_id z = session_id x) ?new)"
    if "x \<in> set fetchedSessions" "y \<in> set (sessions s)" "session_id y = session_id x" for x y
  proof -
    let ?p = "\<lambda>z. session_id z = session_id x"
    have "length (filter ?p ?new) = size (filter_mset ?p (mset ?new))"
      by (metis mset_filter size_mset)
    also have "\<dots> = length (filter ?p (sessions s)) + length (filter ?p fetchedSessions)"
      by (simp add: m flip: mset_filter)
    finally have eq: "length (filter ?p ?new)
        = length (filter ?p (sessions s)) + length (filter ?p fetchedSessions)" .
    from that have "filter ?p (sessions s) \<noteq> []" "filter ?p fetchedSessions \<noteq> []"
      by (auto simp: filter_empty_conv)
    then have "1 \<le> length (filter ?p (sessions s))" "1 \<le> length (filter ?p fetchedSessions)"
      by (simp_all add: Suc_le_eq)
    with eq show ?thesis by linarith
  qed
  with m l show ?thesis by blast
qed

theorem fetchSessions_merge_keeps_duplicates_witness:
  "length (sessions (fst (fetchSessions_settle example_parser (Fulfilled example_response)
       (initial\<lparr>sessions := example_sessions\<rparr>)))) = 4
   \<and> 2 \<le> length (filter (\<lambda>z. session_id z = 3)
       (sessions (fst (fetchSessions_settle example_parser (Fulfilled example_response)
          (initial\<lparr>sessions := example_sessions\<rparr>)))))"
  using fetchSessions_merge_keeps_duplicates
    [of "Fulfilled example_response" example_response example_data example_sessions
        example_parser "initial\<lparr>sessions := example_sessions\<rparr>"]
  by (simp add: example_response_def example_data_def)
     (simp add: example_sessions_def example_session_def)

section \<open>The total page count\<close>

text \<open>
  Claim C6, as the code has it. The total page count starts unknown. Every fetch whose body
  parses sets it to \<^verbatim>\<open>total_pages\<close> of that body, and to unknown when the field is absent
  or \<open>0\<close>, whatever it was before; with an absent field the guard of \<^verbatim>\<open>fetchSessions\<close>
  is open again afterwards, so paging goes on. A fetch that ends before the body is parsed
  leaves the count as it was.
\<close>

theorem totalPages_follows_each_response:
  "totalPages initial = None
   \<and> (fetched = Fulfilled response \<and> ok response \<and> json response = Fulfilled data \<longrightarrow>
        totalPages (fst (fetchSessions_settle P fetched s)) = total_pages_or_null data)
   \<and> (fetched = Fulfilled response \<and> ok response \<and> json response = Fulfilled data \<and>
        total_pages data = None \<longrightarrow>
        totalPages (fst (fetchSessions_settle P fetched s)) = None \<and>
        \<not> fetchSessions_guard (fst (fetchSessions_settle P fetched s)))
   \<and> (fetched = Rejected m \<or> (fetched = Fulfilled response \<and>
          (\<not> ok response \<or> json response = Rejected m)) \<longrightarrow>
        totalPages (fst (fetchSessions_settle P fetched s)) = totalPages s)"
proof (intro conjI impI)
  show "totalPages initial = None" by (simp add: initial_def)
next
  assume "fetched = Fulfilled response \<and> ok response \<and> json response = Fulfilled data"
  then show "totalPages (fst (fetchSessions_settle P fetched s)) = total_pages_or_null data"
    by (simp add: totalPages_settle_body)
next
  assume b: "fetched = Fulfilled response \<and> ok response \<and> json response = Fulfilled data \<and>
        total_pages data = None"
  then show none: "totalPages (fst (fetchSessions_settle P fetched s)) = None"
    by (simp add: totalPages_settle_body total_pages_or_null_def)
  then show "\<not> fetchSessions_guard (fst (fetchSessions_settle P fetched s))"
    by (simp add: fetchSessions_guard_def settle_not_loading)
next
  assume "fetched = Rejected m \<or> (fetched = Fulfilled response \<and>
          (\<not> ok response \<or> json response = Rejected m))"
  then show "totalPages (fst (fetchSessions_settle P fetched s)) = totalPages s"
    by (rule totalPages_settle_no_body)
qed

theorem totalPages_follows_each_response_witness:
  "totalPages (fst (fetchSessions_settle example_parser
       (Fulfilled \<lparr>ok = True, json = Fulfilled \<lparr>chat_sessions = Some [], total_pages = Some 5\<rparr>\<rparr>)
       (initial\<lparr>totalPages := Some 3\<rparr>))) = Some 5
   \<and> totalPages (fst (fetchSessions_settle example_parser
       (Fulfilled \<lparr>ok = True, json = Fulfilled \<lparr>chat_sessions = Some [], total_pages = None\<rparr>\<rparr>)
       (initial\<lparr>totalPages := Some 3\<rparr>))) = None
   \<and> totalPages (fst (fetchSessions_settle example_parser
       (Fulfilled \<lparr>ok = False, json = Rejected []\<rparr>) (initial\<lparr>totalPages := Some 3\<rparr>))) = Some 3"
  using totalPages_follows_each_response
    [of "Fulfilled \<lparr>ok = True, json = Fulfilled \<lparr>chat_sessions = Some [], total_pages = Some 5\<rparr>\<rparr>"
        "\<lparr>ok = True, json = Fulfilled \<lparr>chat_sessions = Some [], total_pages = Some 5\<rparr>\<rparr>"
        "\<lparr>chat_sessions = Some [], total_pages = Some 5\<rparr>" example_parser
        "initial\<lparr>totalPages := Some 3\<rparr>" "[]"]
    totalPages_follows_each_response
    [of "Fulfilled \<lparr>ok = True, json = Fulfilled \<lparr>chat_sessions = Some [], total_pages = None\<rparr>\<rparr>"
        "\<lparr>ok = True, json = Fulfilled \<lparr>chat_sessions = Some [], total_pages = None\<rparr>\<rparr>"
        "\<lparr>chat_sessions = Some [], total_pages = None\<rparr>" example_parser
        "initial\<lparr>totalPages := Some 3\<rparr>" "[]"]
    totalPages_follows_each_response
    [of "Fulfilled \<lparr>ok = False, json = Rejected []\<rparr>"
        "\<lparr>ok = False, json = Rejected []\<rparr>"
        "\<lparr>chat_sessions = Some [], total_pages = None\<rparr>" example_parser
        "initial\<lparr>totalPages := Some 3\<rparr>" "[]"]
  by (simp add: total_pages_or_null_def initial_def)

text \<open>
  Claim C6 as stated asks that no later successful fetch changes the count. A first page
  that reports 3 pages and a second that reports 5 leave it at 5.
\<close>

theorem later_response_changes_totalPages:
  "totalPages (fst (fetchSessions_settle example_parser (example_page [] 3) initial)) = Some 3
   \<and> totalPages (fst (fetchSessions_settle example_parser (example_page [] 5)
        (fst (fetchSessions_settle example_parser (example_page [] 3) initial)))) = Some 5"
  by (simp add: fetchSessions_settle_def try_block_def example_page_def initial_def
      total_pages_or_null_def Array_sort_def)

section \<open>The guard of fetchSessions\<close>

text \<open>
  Claim C2 asks for a single request from any two calls made before the first resolves.
  The guard of line 43 reads the \<^verbatim>\<open>loading\<close> of the render that made the function, and
  \<^verbatim>\<open>setLoading(true)\<close> reaches a function only through the next commit. The
  \<^verbatim>\<open>fetchSessions\<close> of the first render, called twice in a row, passes the guard twice:
  the second call finds the flag set in the store and still asks for page 1, and two
  requests are in flight.
\<close>

theorem two_calls_of_one_render_send_two_requests:
  "fetchSessions_start initial initial
     = (initial\<lparr>loading := True\<rparr>, Some \<lparr>page_param = 1, per_page = 20\<rparr>)
   \<and> fetchSessions_start initial (initial\<lparr>loading := True\<rparr>)
     = (initial\<lparr>loading := True\<rparr>, Some \<lparr>page_param = 1, per_page = 20\<rparr>)
   \<and> run example_parser [Invoke, Invoke] (initial, initial, [])
     = (initial, initial\<lparr>loading := True\<rparr>,
        [\<lparr>page_param = 1, per_page = 20\<rparr>, \<lparr>page_param = 1, per_page = 20\<rparr>])"
  by (simp add: fetchSessions_start_def fetchSessions_guard_def initial_def)

text \<open>
  When both requests are answered with the first page, its sessions are loaded twice and
  the cursor moves to 3, so page 2 is never asked for. With a commit between the two
  calls the second call is skipped and one request is in flight.
\<close>

lemma two_requests_load_the_page_twice:
  "map session_id (sessions (fst (snd (run example_parser
       [Invoke, Invoke, Settle (Fulfilled example_response), Settle (Fulfilled example_response)]
       (initial, initial, [])))))
     = [3, 3, 2, 2]
   \<and> page (fst (snd (run example_parser
       [Invoke, Invoke, Settle (Fulfilled example_response), Settle (Fulfilled example_response)]
       (initial, initial, [])))) = 3"
  by (simp add: fetchSessions_start_def fetchSessions_guard_def fetchSessions_settle_def
      try_block_def example_response_def example_data_def example_sessions_def Array_sort_def
      SortCompare_def compareSessions_def example_times initial_def)
     (simp add: example_session_def)

lemma call_after_commit_is_skipped:
  "run example_parser [Invoke, Commit, Invoke] (initial, initial, [])
     = (initial\<lparr>loading := True\<rparr>, initial\<lparr>loading := True\<rparr>, [\<lparr>page_param = 1, per_page = 20\<rparr>])"
  by (simp add: fetchSessions_start_def fetchSessions_guard_def initial_def)

text \<open>
  Claim C5. Once the page cursor is past the known total page count, a call of
  \<^verbatim>\<open>fetchSessions\<close> sends no request and changes nothing, the error and the notification
  included, and its promise is fulfilled; any number of calls leaves the render, the store
  and the requests in flight as they are.
\<close>

theorem fetchSessions_past_last_page:
  assumes "totalPages r = Some t" "t < page r"
  shows "fetchSessions_start r s = (s, None)
     \<and> fetchSessions P backend r s = (s, [], Fulfilled ())
     \<and> run P (replicate n Invoke) (r, s, inflight) = (r, s, inflight)"
proof -
  from assms have g: "fetchSessions_guard r" by (simp add: fetchSessions_guard_def)
  then show ?thesis
    by (simp add: fetchSessions_def start_guarded run_Invoke_guarded)
qed

theorem fetchSessions_past_last_page_witness:
  "fetchSessions example_parser (\<lambda>q. example_page [] 3) last_page_store last_page_store
     = (last_page_store, [], Fulfilled ())
   \<and> run example_parser (replicate 5 Invoke) (last_page_store, last_page_store, [])
     = (last_page_store, last_page_store, [])
   \<and> error last_page_store = None"
  using fetchSessions_past_last_page
    [of last_page_store 3 last_page_store example_parser "\<lambda>q. example_page [] 3" 5 "[]"]
  by (simp add: last_page_store_def initial_def)

section \<open>Selecting a session\<close>

text \<open>
  Claim C7. When the selected identifier is that of a loaded session, the handler sends
  no request, records the identifier and sets the message view to the \<^verbatim>\<open>messages\<close> of
  the session that \<^verbatim>\<open>find\<close> returns, the first loaded one with this identifier; all other
  cells keep their values. When only one loaded session has the identifier, the view is
  the messages of that session.
\<close>

theorem handleSessionClick_shows_messages:
  assumes "sessionId \<in> session_id ` set (sessions r)"
  shows "(\<exists>selected. find (\<lambda>session. session_id session = sessionId) (sessions r) = Some selected
          \<and> selected \<in> set (sessions r) \<and> session_id selected = sessionId
          \<and> handleSessionClick r sessionId s
              = (s\<lparr>selectedSession := Some sessionId, currentMessages := messages selected\<rparr>, []))
     \<and> (\<forall>x\<in>set (sessions r). session_id x = sessionId \<and>
            (\<forall>y\<in>set (sessions r). session_id y = sessionId \<longrightarrow> y = x) \<longrightarrow>
          handleSessionClick r sessionId s
            = (s\<lparr>selectedSession := Some sessionId, currentMessages := messages x\<rparr>, []))"
proof
  from find_first_session [OF assms] obtain selected where
    sel: "find (\<lambda>session. session_id session = sessionId) (sessions r) = Some selected"
      "selected \<in> set (sessions r)" "session_id selected = sessionId"
    by blast
  then have "handleSessionClick r sessionId s
      = (s\<lparr>selectedSession := Some sessionId, currentMessages := messages selected\<rparr>, [])"
    by (simp add: handleSessionClick_def)
  with sel show "\<exists>selected. find (\<lambda>session. session_id session = sessionId) (sessions r) = Some selected
          \<and> selected \<in> set (sessions r) \<and> session_id selected = sessionId
          \<and> handleSessionClick r sessionId s
              = (s\<lparr>selectedSession := Some sessionId, currentMessages := messages selected\<rparr>, [])"
    by blast
next
  show "\<forall>x\<in>set (sessions r). session_id x = sessionId \<and>
            (\<forall>y\<in>set (sessions r). session_id y = sessionId \<longrightarrow> y = x) \<longrightarrow>
          handleSessionClick r sessionId s
            = (s\<lparr>selectedSession := Some sessionId, currentMessages := messages x\<rparr>, [])"
  proof (intro ballI impI, elim conjE)
    fix x
    assume x: "x \<in> set (sessions r)" and i: "session_id x = sessionId"
      and only: "\<forall>y\<in>set (sessions r). session_id y = sessionId \<longrightarrow> y = x"
    from only i have "\<forall>y\<in>set (sessions r). session_id y = session_id x \<longrightarrow> y = x"
      by blast
    with x have "find (\<lambda>session. session_id session = session_id x) (sessions r) = Some x"
      by (rule find_only_session)
    with i show "handleSessionClick r sessionId s
            = (s\<lparr>selectedSession := Some sessionId, currentMessages := messages x\<rparr>, [])"
      by (simp add: handleSessionClick_def)
  qed
qed

text \<open>Session 7 with its three messages.\<close>

theorem handleSessionClick_shows_messages_witness:
  "handleSessionClick selectable_store 7 selectable_store
     = (selectable_store\<lparr>selectedSession := Some 7,
          currentMessages := messages (example_session 7 ''Dana''
             [''2024-03-10'', ''2024-02-01'', ''2024-01-05''])\<rparr>, [])
   \<and> length (messages (example_session 7 ''Dana''
             [''2024-03-10'', ''2024-02-01'', ''2024-01-05''])) = 3"
proof -
  have "(7::int) \<in> session_id ` set (sessions selectable_store)"
    by (simp add: selectable_store_def example_session_def)
  moreover have "example_session 7 ''Dana'' [''2024-03-10'', ''2024-02-01'', ''2024-01-05'']
      \<in> set (sessions selectable_store)"
    by (simp add: selectable_store_def)
  moreover have "session_id (example_session 7 ''Dana''
      [''2024-03-10'', ''2024-02-01'', ''2024-01-05'']) = 7"
    by (simp add: example_session_def)
  moreover have "\<forall>y\<in>set (sessions selectable_store). session_id y = 7 \<longrightarrow>
      y = example_session 7 ''Dana'' [''2024-03-10'', ''2024-02-01'', ''2024-01-05'']"
    by (simp add: selectable_store_def) (simp add: example_session_def)
  moreover have "length (messages (example_session 7 ''Dana''
             [''2024-03-10'', ''2024-02-01'', ''2024-01-05''])) = 3"
    by (simp add: example_session_def)
  ultimately show ?thesis
    using handleSessionClick_shows_messages [of 7 selectable_store selectable_store]
    by blast
qed

text \<open>
  Claim C10. When no loaded session has the selected identifier, the handler leaves the
  whole store as it is, the selected session and the message view included, and sends no
  request.
\<close>

theorem handleSessionClick_unknown_id:
  "\<forall>x\<in>set (sessions r). session_id x \<noteq> sessionId \<Longrightarrow>
     handleSessionClick r sessionId s = (s, [])"
  by (simp add: handleSessionClick_def find_no_session)

theorem handleSessionClick_unknown_id_witness:
  "handleSessionClick (initial\<lparr>sessions := example_sessions\<rparr>) 7
      (initial\<lparr>sessions := example_sessions, selectedSession := Some 2\<rparr>)
     = (initial\<lparr>sessions := example_sessions, selectedSession := Some 2\<rparr>, [])"
  using handleSessionClick_unknown_id
    [of "initial\<lparr>sessions := example_sessions\<rparr>" 7
        "initial\<lparr>sessions := example_sessions, selectedSession := Some 2\<rparr>"]
  by (simp add: example_sessions_def example_session_def)

section \<open>The filter\<close>

















text \<open>
  The end bound is the instant that the date string denotes, midnight for a date without
  a time: a session of 31 December 2024, 10:00, is outside the end date 31 December 2024.
\<close>

lemma filteredSessions_end_bound_is_an_instant:
  "filteredSessions example_parser
     (initial\<lparr>sessions := [example_session 4 ''Erin'' [''2024-12-31T10:00:00Z'']],
        endDate := ''2024-12-31''\<rparr>) = []"
  by (simp add: filteredSessions_def isWithinDateRange_def sessionDate_def date_le_def
      example_session_def example_parser_def initial_def)

section \<open>The notification timer\<close>

lemma run_cleanup_one_timer:
  "one_timer (inst, b) \<Longrightarrow> timers (run_cleanup (cleanup inst) b) = []"
  by (cases "cleanup inst")
     (auto simp: one_timer_def run_cleanup_def clearTimeout_def filter_empty_conv)

lemma render_changed_visible:
  assumes "one_timer (inst, b)" "deps inst \<noteq> Some (isVisible props, onClose props)" "isVisible props"
  shows "Snackbar_render props (inst, b) =
     (\<lparr>deps = Some (True, onClose props), cleanup = Some (next_timer_id b)\<rparr>,
      b\<lparr>timers := [\<lparr>timer_id = next_timer_id b, due = clock b + 3000, callback = onClose props\<rparr>],
        next_timer_id := next_timer_id b + 1\<rparr>)"
proof -
  let ?b = "run_cleanup (cleanup inst) b"
  have t: "timers ?b = []" using assms(1) by (rule run_cleanup_one_timer)
  have c: "clock ?b = clock b" "next_timer_id ?b = next_timer_id b"
    by (simp_all add: run_cleanup_def clearTimeout_def split: option.splits)
  have "?b = b\<lparr>timers := []\<rparr>"
    using t by (simp add: run_cleanup_def clearTimeout_def split: option.splits)
  with assms(2,3) show ?thesis
    by (simp add: Snackbar_render_def Snackbar_effect_def setTimeout_def)
qed

lemma render_changed_hidden:
  assumes "one_timer (inst, b)" "deps inst \<noteq> Some (isVisible props, onClose props)" "\<not> isVisible props"
  shows "Snackbar_render props (inst, b) =
     (\<lparr>deps = Some (False, onClose props), cleanup = None\<rparr>, b\<lparr>timers := []\<rparr>)"
proof -
  let ?b = "run_cleanup (cleanup inst) b"
  have t: "timers ?b = []" using assms(1) by (rule run_cleanup_one_timer)
  have "?b = b\<lparr>timers := []\<rparr>"
    using t by (simp add: run_cleanup_def clearTimeout_def split: option.splits)
  with assms(2,3) show ?thesis
    by (simp add: Snackbar_render_def Snackbar_effect_def)
qed

lemma render_unchanged:
  "deps inst = Some (isVisible props, onClose props) \<Longrightarrow> Snackbar_render props (inst, b) = (inst, b)"
  by (simp add: Snackbar_render_def)

lemma one_timer_render: "one_timer c \<Longrightarrow> one_timer (Snackbar_render props c)"
proof -
  assume inv: "one_timer c"
  obtain inst b where c: "c = (inst, b)" by (cases c)
  show ?thesis
  proof (cases "deps inst = Some (isVisible props, onClose props)")
    case True
    with inv c show ?thesis by (simp add: render_unchanged)
  next
    case False
    show ?thesis
    proof (cases "isVisible props")
      case True
      with inv c False show ?thesis
        by (simp add: render_changed_visible) (simp add: one_timer_def)
    next
      case hidden: False
      with inv c False show ?thesis
        by (simp add: render_changed_hidden) (simp add: one_timer_def)
    qed
  qed
qed

lemma one_timer_unmount: "one_timer c \<Longrightarrow> timers (snd (Snackbar_unmount c)) = []"
  by (cases c) (simp add: Snackbar_unmount_def run_cleanup_one_timer)

lemma one_timer_step: "one_timer c \<Longrightarrow> one_timer (fst (snackbar_step e c))"
proof (cases e)
  case (Render props)
  assume "one_timer c"
  with Render show ?thesis by (simp add: one_timer_render)
next
  case (Elapse d)
  assume inv: "one_timer c"
  obtain inst b where c: "c = (inst, b)" by (cases c)
  from inv c have "length (timers b) \<le> 1" by (simp add: one_timer_def)
  with length_filter_le [of "\<lambda>t. clock b + d < due t" "timers b"]
  have "length (filter (\<lambda>t. clock b + d < due t) (timers b)) \<le> 1"
    by (rule le_trans)
  with inv c Elapse show ?thesis
    by (simp add: one_timer_def elapse_def)
next
  case Unmount
  assume inv: "one_timer c"
  then have "timers (snd (Snackbar_unmount c)) = []" by (rule one_timer_unmount)
  with Unmount show ?thesis
    by (cases "Snackbar_unmount c") (simp add: one_timer_def)
qed

lemma one_timer_run: "one_timer c \<Longrightarrow> one_timer (fst (snackbar_run es c))"
proof (induction es arbitrary: c)
  case Nil
  then show ?case by simp
next
  case (Cons e es)
  from Cons.prems have "one_timer (fst (snackbar_step e c))" by (rule one_timer_step)
  then have "one_timer (fst (snackbar_run es (fst (snackbar_step e c))))" by (rule Cons.IH)
  then show ?case by (simp add: split_beta Let_def)
qed

lemma one_timer_before_mount: "one_timer before_mount"
  by (simp add: one_timer_def before_mount_def)

lemma elapse_single_timer:
  assumes "timers b = [\<lparr>timer_id = i, due = clock b + 3000, callback = k\<rparr>]"
  shows "d < 3000 \<Longrightarrow> snd (elapse d b) = []"
    and "d < 3000 \<Longrightarrow> timers (fst (elapse d b)) = timers b"
    and "3000 \<le> d \<Longrightarrow> snd (elapse d b) = [k]"
    and "3000 \<le> d \<Longrightarrow> timers (fst (elapse d b)) = []"
  using assms by (simp_all add: elapse_def)

lemma elapse_no_timer: "timers b = [] \<Longrightarrow> snd (elapse d b) = []"
  by (simp add: elapse_def)

text \<open>
  Claim C8, as the code has it. In every state that renders, passing time and removal can
  reach from before the mount, at most one timeout is pending. A render in which
  \<^verbatim>\<open>isVisible\<close> or \<^verbatim>\<open>onClose\<close> differs from the previous render cancels the pending timeout;
  when the notification is visible it schedules one fresh timeout 3000 ms ahead, which does
  not fire before 3000 ms have passed and fires exactly once when they have; when it is not
  visible no timeout remains. A render with the same \<^verbatim>\<open>isVisible\<close> and \<^verbatim>\<open>onClose\<close>
  changes nothing, whatever the message. After the component is removed no timeout remains.
\<close>

theorem Snackbar_timer_follows_isVisible_and_onClose:
  assumes "c = fst (snackbar_run es before_mount)"
  shows "length (timers (snd c)) \<le> 1
     \<and> (deps (fst c) \<noteq> Some (isVisible props, onClose props) \<and> isVisible props \<longrightarrow>
          timers (snd (Snackbar_render props c))
            = [\<lparr>timer_id = next_timer_id (snd c), due = clock (snd c) + 3000,
                 callback = onClose props\<rparr>]
          \<and> (d < 3000 \<longrightarrow> snd (snackbar_run [Elapse d] (Snackbar_render props c)) = [])
          \<and> (3000 \<le> d \<longrightarrow>
                snd (snackbar_run [Elapse d, Elapse d'] (Snackbar_render props c)) = [onClose props]))
     \<and> (deps (fst c) \<noteq> Some (isVisible props, onClose props) \<and> \<not> isVisible props \<longrightarrow>
          timers (snd (Snackbar_render props c)) = [])
     \<and> (deps (fst c) = Some (isVisible props, onClose props) \<longrightarrow> Snackbar_render props c = c)
     \<and> timers (snd (Snackbar_unmount c)) = []"
proof -
  obtain inst b where c: "c = (inst, b)" by (cases c)
  have inv: "one_timer (inst, b)"
    using one_timer_run [OF one_timer_before_mount, of es] assms c by simp
  have one: "length (timers (snd c)) \<le> 1"
    using inv c by (simp add: one_timer_def)
  have hidden: "timers (snd (Snackbar_render props c)) = []"
    if "deps (fst c) \<noteq> Some (isVisible props, onClose props) \<and> \<not> isVisible props"
  proof -
    from that have "deps inst \<noteq> Some (isVisible props, onClose props)" "\<not> isVisible props"
      using c by auto
    with inv have "Snackbar_render props (inst, b)
        = (\<lparr>deps = Some (False, onClose props), cleanup = None\<rparr>, b\<lparr>timers := []\<rparr>)"
      by (rule render_changed_hidden)
    with c show ?thesis by simp
  qed
  have same: "Snackbar_render props c = c"
    if "deps (fst c) = Some (isVisible props, onClose props)"
    using that c by (simp add: render_unchanged)
  have gone: "timers (snd (Snackbar_unmount c)) = []"
    using inv c by (simp add: one_timer_unmount)
  have shown: "timers (snd (Snackbar_render props c))
            = [\<lparr>timer_id = next_timer_id (snd c), due = clock (snd c) + 3000,
                 callback = onClose props\<rparr>]
          \<and> (d < 3000 \<longrightarrow> snd (snackbar_run [Elapse d] (Snackbar_render props c)) = [])
          \<and> (3000 \<le> d \<longrightarrow>
                snd (snackbar_run [Elapse d, Elapse d'] (Snackbar_render props c)) = [onClose props])"
    if h: "deps (fst c) \<noteq> Some (isVisible props, onClose props) \<and> isVisible props"
  proof -
    let ?b = "b\<lparr>timers := [\<lparr>timer_id = next_timer_id b, due = clock b + 3000,
        callback = onClose props\<rparr>], next_timer_id := next_timer_id b + 1\<rparr>"
    let ?i = "\<lparr>deps = Some (True, onClose props), cleanup = Some (next_timer_id b)\<rparr>"
    from h have "deps inst \<noteq> Some (isVisible props, onClose props)" "isVisible props"
      using c by auto
    with inv have "Snackbar_render props (inst, b) = (?i, ?b)"
      by (rule render_changed_visible)
    with c have r: "Snackbar_render props c = (?i, ?b)" by simp
    have t: "timers ?b = [\<lparr>timer_id = next_timer_id b, due = clock ?b + 3000,
        callback = onClose props\<rparr>]"
      by simp
    have early: "snd (snackbar_run [Elapse d] (Snackbar_render props c)) = []" if "d < 3000"
      using elapse_single_timer(1) [OF t that] by (simp add: r split_beta)
    have late: "snd (snackbar_run [Elapse d, Elapse d'] (Snackbar_render props c)) = [onClose props]"
      if "3000 \<le> d"
    proof -
      have "snd (elapse d ?b) = [onClose props]" "timers (fst (elapse d ?b)) = []"
        using elapse_single_timer(3,4) [OF t that] by simp_all
      moreover from this(2) have "snd (elapse d' (fst (elapse d ?b))) = []"
        by (rule elapse_no_timer)
      ultimately show ?thesis by (simp add: r split_beta)
    qed
    from r c early late show ?thesis by simp
  qed
  from one shown hidden same gone show ?thesis by blast
qed

text \<open>A second show one second after the first, with a new \<^verbatim>\<open>onClose\<close> as the dashboard
  passes on every render: the timeout is due at 4000 ms.\<close>

theorem Snackbar_timer_follows_isVisible_and_onClose_witness:
  "timers (snd (Snackbar_render (example_props ''second'' True 2)
       (fst (snackbar_run [Render (example_props ''first'' True 1), Elapse 1000] before_mount))))
     = [\<lparr>timer_id = 2, due = 4000, callback = 2\<rparr>]
   \<and> snd (snackbar_run [Elapse 3000, Elapse 3000] (Snackbar_render (example_props ''second'' True 2)
       (fst (snackbar_run [Render (example_props ''first'' True 1), Elapse 1000] before_mount))))
     = [2]
   \<and> timers (snd (Snackbar_unmount
       (fst (snackbar_run [Render (example_props ''first'' True 1), Elapse 1000] before_mount)))) = []"
proof -
  let ?c = "fst (snackbar_run [Render (example_props ''first'' True 1), Elapse 1000] before_mount)"
  have c: "?c = (\<lparr>deps = Some (True, 1), cleanup = Some 1\<rparr>,
      \<lparr>clock = 1000, timers = [\<lparr>timer_id = 1, due = 3000, callback = 1\<rparr>], next_timer_id = 2\<rparr>)"
    by (simp add: before_mount_def example_props_def Snackbar_render_def Snackbar_effect_def
        run_cleanup_def setTimeout_def elapse_def)
  have p: "isVisible (example_props ''second'' True 2)" "onClose (example_props ''second'' True 2) = 2"
    by (simp_all add: example_props_def)
  have "deps (fst ?c) \<noteq> Some (isVisible (example_props ''second'' True 2),
      onClose (example_props ''second'' True 2))"
    unfolding c p by simp
  moreover have "next_timer_id (snd ?c) = 2" "clock (snd ?c) + 3000 = 4000"
    unfolding c by simp_all
  ultimately show ?thesis
    using p Snackbar_timer_follows_isVisible_and_onClose
      [of ?c "[Render (example_props ''first'' True 1), Elapse 1000]"
          "example_props ''second'' True 2" 3000 3000]
    by simp
qed

text \<open>
  Claim C8 as stated asks that every change of the message cancels the pending timeout and
  schedules a fresh one. \<^verbatim>\<open>message\<close> is not a dependency of the effect: a second show one
  second after the first, with another message and the same \<^verbatim>\<open>onClose\<close>, leaves the
  timeout due at 3000 ms, and it fires two seconds after the second show.
\<close>

theorem Snackbar_message_change_keeps_timer:
  "message (example_props ''first'' True 1) \<noteq> message (example_props ''second'' True 1)
   \<and> timers (snd (fst (snackbar_run
        [Render (example_props ''first'' True 1), Elapse 1000] before_mount)))
     = [\<lparr>timer_id = 1, due = 3000, callback = 1\<rparr>]
   \<and> timers (snd (fst (snackbar_run
        [Render (example_props ''first'' True 1), Elapse 1000,
         Render (example_props ''second'' True 1)] before_mount)))
     = [\<lparr>timer_id = 1, due = 3000, callback = 1\<rparr>]
   \<and> snd (snackbar_run
        [Render (example_props ''first'' True 1), Elapse 1000,
         Render (example_props ''second'' True 1), Elapse 2000] before_mount) = [1]"
  by (simp add: before_mount_def example_props_def Snackbar_render_def Snackbar_effect_def
      run_cleanup_def setTimeout_def elapse_def)

end
